theory Spec2Isabelle
  imports Complex_Main "HOL-Library.Multiset"
begin

section \<open>ConsciousnessThresholds: the metrics holder and its evaluation\<close>

text \<open>
  The class of \<^verbatim>\<open>src/ConsciousnessThresholds.py\<close> holds three numeric fields and a
  dictionary from domain names to numbers. The code only stores and compares these
  numbers (it performs no arithmetic on them), and Python compares two numbers (floats,
  integers, fractions) by their exact values. A metric is therefore modelled as the real
  number it denotes, and a comparison of the source is the order of the reals. A float
  literal of the source denotes its binary64 value, which for \<^verbatim>\<open>0.1\<close>, \<^verbatim>\<open>0.8\<close>,
  \<^verbatim>\<open>0.85\<close> and \<^verbatim>\<open>0.7\<close> is not the decimal fraction (see \<open>default_thresholds\<close>).
  Values that are not numbers (a NaN) are outside the model. Domain names are strings.
\<close>

record ConsciousnessThresholds =
  global_delta_c :: real
  recursive_modeling_score :: real
  memory_integrity_score :: real
  domain_stabilization :: "string \<rightharpoonup> real"

text \<open>\<^verbatim>\<open>__init__\<close>: the freshly constructed object.\<close>

definition init :: ConsciousnessThresholds where
  "init = \<lparr>global_delta_c = 1.0, recursive_modeling_score = 0.0,
            memory_integrity_score = 0.0, domain_stabilization = Map.empty\<rparr>"

subsection \<open>update_metrics\<close>

text \<open>
  \<^verbatim>\<open>domain_updates\<close> is a dictionary; the loop runs over its \<^verbatim>\<open>items()\<close>, a
  sequence of (key, value) pairs in which every key occurs once. The argument is modelled
  as that sequence. The loop \<^verbatim>\<open>for domain, pct in domain_updates.items():
  self.domain_stabilization[domain] = pct\<close> is the recursion \<open>store_domains\<close>.
\<close>

fun store_domains :: "(string \<rightharpoonup> real) \<Rightarrow> (string \<times> real) list \<Rightarrow> (string \<rightharpoonup> real)" where
  "store_domains m [] = m"
| "store_domains m ((domain, pct) # items) = store_domains (m(domain \<mapsto> pct)) items"

definition update_metrics ::
  "ConsciousnessThresholds \<Rightarrow> real \<Rightarrow> real \<Rightarrow> real \<Rightarrow> (string \<times> real) list
     \<Rightarrow> ConsciousnessThresholds" where
  "update_metrics self delta_c recursive_score memory_score domain_updates =
     self\<lparr>global_delta_c := delta_c,
          recursive_modeling_score := recursive_score,
          memory_integrity_score := memory_score,
          domain_stabilization := store_domains (domain_stabilization self) domain_updates\<rparr>"

subsection \<open>is_conscious\<close>

text \<open>
  The \<^verbatim>\<open>thresholds\<close> argument is a dictionary from strings to values; the values the
  code expects are numbers and, under \<^verbatim>\<open>"required_domains"\<close>, a list of domain names.
  \<^verbatim>\<open>thresholds[k]\<close> raises \<^verbatim>\<open>KeyError\<close> when \<open>k\<close> is missing; comparing a number
  with a list, or iterating over a number, raises \<^verbatim>\<open>TypeError\<close>. Both are values of
  the result type.
\<close>

datatype pyval = Num real | Names "string list"

type_synonym thresholds = "string \<rightharpoonup> pyval"

datatype error = KeyError string | TypeError

text \<open>
  The float literals of the default dictionary. A binary64 number in the normal range is
  \<open>m / 2 ^ e\<close> with a 53-bit significand \<open>m\<close>; the literal for a decimal \<open>q\<close> is
  the one nearest to \<open>q\<close>, which \<open>nearest_double\<close> states: it is less than half a unit
  in the last place away.
  \<^item> \<^verbatim>\<open>0.1\<close> is \<^verbatim>\<open>0x1.999999999999ap-4\<close>, about \<open>5.6e-18\<close> above \<open>1/10\<close>;
  \<^item> \<^verbatim>\<open>0.8\<close> is \<^verbatim>\<open>0x1.999999999999ap-1\<close>, about \<open>4.4e-17\<close> above \<open>4/5\<close>;
  \<^item> \<^verbatim>\<open>0.85\<close> is \<^verbatim>\<open>0x1.b333333333333p-1\<close>, about \<open>2.2e-17\<close> below \<open>17/20\<close>;
  \<^item> \<^verbatim>\<open>0.7\<close> is \<^verbatim>\<open>0x1.6666666666666p-1\<close>, about \<open>4.4e-17\<close> below \<open>7/10\<close>.
\<close>

definition nearest_double :: "real \<Rightarrow> nat \<Rightarrow> nat \<Rightarrow> bool" where
  "nearest_double q m e =
     (2 ^ 52 \<le> m \<and> m < 2 ^ 53 \<and> \<bar>q - real m / 2 ^ e\<bar> < 1 / 2 ^ (e + 1))"

definition double_0_1 :: real where
  "double_0_1 = 7205759403792794 / 2 ^ 56"

definition double_0_8 :: real where
  "double_0_8 = 7205759403792794 / 2 ^ 53"

definition double_0_85 :: real where
  "double_0_85 = 7656119366529843 / 2 ^ 53"

definition double_0_7 :: real where
  "double_0_7 = 6305039478318694 / 2 ^ 53"

text \<open>The dictionary literal of the source, used when \<^verbatim>\<open>thresholds is None\<close>.\<close>

definition default_thresholds :: thresholds where
  "default_thresholds =
     [''delta_c'' \<mapsto> Num double_0_1,
      ''recursive_modeling'' \<mapsto> Num double_0_8,
      ''memory_integrity'' \<mapsto> Num double_0_85,
      ''min_domain_stabilization'' \<mapsto> Num double_0_7,
      ''required_domains'' \<mapsto> Names [''time'', ''biology'', ''mind'', ''learning'']]"

text \<open>\<^verbatim>\<open>thresholds[k]\<close>\<close>

definition getitem :: "thresholds \<Rightarrow> string \<Rightarrow> error + pyval" where
  "getitem th k = (case th k of None \<Rightarrow> Inl (KeyError k) | Some v \<Rightarrow> Inr v)"

text \<open>\<^verbatim>\<open>x > v\<close> and \<^verbatim>\<open>x < v\<close> for a number \<open>x\<close> and a dictionary value \<open>v\<close>.\<close>

fun gt :: "real \<Rightarrow> pyval \<Rightarrow> error + bool" where
  "gt x (Num y) = Inr (x > y)"
| "gt x (Names ys) = Inl TypeError"

fun lt :: "real \<Rightarrow> pyval \<Rightarrow> error + bool" where
  "lt x (Num y) = Inr (x < y)"
| "lt x (Names ys) = Inl TypeError"

text \<open>\<^verbatim>\<open>for domain in v\<close>: the sequence iterated over, or \<^verbatim>\<open>TypeError\<close>.\<close>

fun iter :: "pyval \<Rightarrow> error + string list" where
  "iter (Names ds) = Inr ds"
| "iter (Num x) = Inl TypeError"

text \<open>\<^verbatim>\<open>self.domain_stabilization.get(domain, 0)\<close>\<close>

definition get_default :: "(string \<rightharpoonup> real) \<Rightarrow> string \<Rightarrow> real" where
  "get_default m domain = (case m domain of None \<Rightarrow> 0 | Some pct \<Rightarrow> pct)"

text \<open>
  The loop over the required domains. Each iteration reads the stored value, then looks
  \<^verbatim>\<open>"min_domain_stabilization"\<close> up (the lookup is inside the loop body, so it
  happens only when there is a domain to check), and returns \<^verbatim>\<open>False\<close> at the first
  domain below the minimum.
\<close>

fun check_domains :: "(string \<rightharpoonup> real) \<Rightarrow> thresholds \<Rightarrow> string list \<Rightarrow> error + bool" where
  "check_domains m th [] = Inr True"
| "check_domains m th (domain # rest) =
     (case getitem th ''min_domain_stabilization'' of
        Inl e \<Rightarrow> Inl e
      | Inr v \<Rightarrow>
          (case lt (get_default m domain) v of
             Inl e \<Rightarrow> Inl e
           | Inr low \<Rightarrow> if low then Inr False else check_domains m th rest))"

text \<open>\<^verbatim>\<open>if thresholds is None: thresholds = {...}\<close>\<close>

definition resolve :: "thresholds option \<Rightarrow> thresholds" where
  "resolve thresholds = (case thresholds of None \<Rightarrow> default_thresholds | Some th \<Rightarrow> th)"

text \<open>
  The body of \<^verbatim>\<open>is_conscious\<close> after the default has been filled in: the three scalar
  checks in the order of the source, each with its early \<^verbatim>\<open>return False\<close>, then the
  loop.
\<close>

definition checks :: "ConsciousnessThresholds \<Rightarrow> thresholds \<Rightarrow> error + bool" where
  "checks self th =
     (case getitem th ''delta_c'' of
        Inl e \<Rightarrow> Inl e
      | Inr v1 \<Rightarrow>
     (case gt (global_delta_c self) v1 of
        Inl e \<Rightarrow> Inl e
      | Inr exceeds \<Rightarrow> if exceeds then Inr False else
     (case getitem th ''recursive_modeling'' of
        Inl e \<Rightarrow> Inl e
      | Inr v2 \<Rightarrow>
     (case lt (recursive_modeling_score self) v2 of
        Inl e \<Rightarrow> Inl e
      | Inr low2 \<Rightarrow> if low2 then Inr False else
     (case getitem th ''memory_integrity'' of
        Inl e \<Rightarrow> Inl e
      | Inr v3 \<Rightarrow>
     (case lt (memory_integrity_score self) v3 of
        Inl e \<Rightarrow> Inl e
      | Inr low3 \<Rightarrow> if low3 then Inr False else
     (case getitem th ''required_domains'' of
        Inl e \<Rightarrow> Inl e
      | Inr v4 \<Rightarrow>
     (case iter v4 of
        Inl e \<Rightarrow> Inl e
      | Inr domains \<Rightarrow> check_domains (domain_stabilization self) th domains))))))))"

definition is_conscious :: "ConsciousnessThresholds \<Rightarrow> thresholds option \<Rightarrow> error + bool" where
  "is_conscious self thresholds = checks self (resolve thresholds)"

subsection \<open>is_conscious as a computation on the object\<close>

text \<open>
  \<open>is_conscious\<close> above is the value the method returns. What the method does to the
  object is modelled by threading the object through the statements of the body: a
  computation takes the object and gives its outcome (a value or a raised error)
  together with the object it leaves behind. The body is built from three steps:
  \<^item> \<open>read f\<close>: reading an attribute of \<^verbatim>\<open>self\<close>, or a value computed from it by
    \<^verbatim>\<open>get\<close>, which does not insert the default;
  \<^item> \<open>outcome r\<close>: an expression that does not involve \<^verbatim>\<open>self\<close> (a lookup in
    \<^verbatim>\<open>thresholds\<close>, a comparison, a \<^verbatim>\<open>return\<close>), which returns or raises;
  \<^item> \<open>and_then m f\<close>: sequencing; an error of \<open>m\<close> ends the computation with the object
    as \<open>m\<close> left it.
  The operands are evaluated in Python's order: the left operand of a comparison (the
  attribute) before the right one (the lookup in \<^verbatim>\<open>thresholds\<close>).
\<close>

type_synonym 'a computation =
  "ConsciousnessThresholds \<Rightarrow> (error + 'a) \<times> ConsciousnessThresholds"

definition read :: "(ConsciousnessThresholds \<Rightarrow> 'a) \<Rightarrow> 'a computation" where
  "read f = (\<lambda>self. (Inr (f self), self))"

definition outcome :: "error + 'a \<Rightarrow> 'a computation" where
  "outcome r = (\<lambda>self. (r, self))"

definition and_then ::
  "'a computation \<Rightarrow> ('a \<Rightarrow> 'b computation) \<Rightarrow> 'b computation" where
  "and_then m f =
     (\<lambda>self. case m self of
        (Inl e, self') \<Rightarrow> (Inl e, self')
      | (Inr x, self') \<Rightarrow> f x self')"

fun check_domains_m :: "thresholds \<Rightarrow> string list \<Rightarrow> bool computation" where
  "check_domains_m th [] = outcome (Inr True)"
| "check_domains_m th (domain # rest) =
     and_then (read (\<lambda>self. get_default (domain_stabilization self) domain)) (\<lambda>pct.
     and_then (outcome (getitem th ''min_domain_stabilization'')) (\<lambda>v.
     and_then (outcome (lt pct v)) (\<lambda>low.
     if low then outcome (Inr False) else check_domains_m th rest)))"

definition is_conscious_m :: "thresholds option \<Rightarrow> bool computation" where
  "is_conscious_m thresholds =
     and_then (outcome (Inr (resolve thresholds))) (\<lambda>th.
     and_then (read global_delta_c) (\<lambda>x1.
     and_then (outcome (getitem th ''delta_c'')) (\<lambda>v1.
     and_then (outcome (gt x1 v1)) (\<lambda>exceeds.
     if exceeds then outcome (Inr False) else
     and_then (read recursive_modeling_score) (\<lambda>x2.
     and_then (outcome (getitem th ''recursive_modeling'')) (\<lambda>v2.
     and_then (outcome (lt x2 v2)) (\<lambda>low2.
     if low2 then outcome (Inr False) else
     and_then (read memory_integrity_score) (\<lambda>x3.
     and_then (outcome (getitem th ''memory_integrity'')) (\<lambda>v3.
     and_then (outcome (lt x3 v3)) (\<lambda>low3.
     if low3 then outcome (Inr False) else
     and_then (outcome (getitem th ''required_domains'')) (\<lambda>v4.
     and_then (outcome (iter v4)) (\<lambda>domains.
     check_domains_m th domains))))))))))))"

subsection \<open>Calls on one object\<close>

text \<open>
  The object lives across calls. A call is one of the two methods with its arguments;
  \<open>exec\<close> gives the object after the call: for \<^verbatim>\<open>update_metrics\<close> the updated
  object, for \<^verbatim>\<open>is_conscious\<close> the object its body leaves behind, whether the call
  returns or raises.
\<close>

datatype call =
  Update_metrics real real real "(string \<times> real) list"
| Is_conscious "thresholds option"

fun exec :: "ConsciousnessThresholds \<Rightarrow> call \<Rightarrow> ConsciousnessThresholds" where
  "exec self (Update_metrics delta_c recursive_score memory_score domain_updates) =
     update_metrics self delta_c recursive_score memory_score domain_updates"
| "exec self (Is_conscious thresholds) = snd (is_conscious_m thresholds self)"

fun run :: "ConsciousnessThresholds \<Rightarrow> call list \<Rightarrow> ConsciousnessThresholds" where
  "run self [] = self"
| "run self (c # cs) = run (exec self c) cs"

text \<open>The keys a call stores into the domain dictionary.\<close>

fun stored_keys :: "call \<Rightarrow> string set" where
  "stored_keys (Update_metrics delta_c recursive_score memory_score domain_updates) =
     fst ` set domain_updates"
| "stored_keys (Is_conscious thresholds) = {}"

subsection \<open>Auxiliary definitions for the statements\<close>

text \<open>
  A thresholds dictionary that holds all five keys with values of the expected kinds:
  the four numbers \<open>a\<close>, \<open>b\<close>, \<open>c\<close>, \<open>t\<close> and the list \<open>ds\<close>. Other keys
  may be present; the code never reads them.
\<close>

definition has_thresholds ::
  "thresholds \<Rightarrow> real \<Rightarrow> real \<Rightarrow> real \<Rightarrow> real \<Rightarrow> string list \<Rightarrow> bool" where
  "has_thresholds th a b c t ds =
     (th ''delta_c'' = Some (Num a) \<and>
      th ''recursive_modeling'' = Some (Num b) \<and>
      th ''memory_integrity'' = Some (Num c) \<and>
      th ''min_domain_stabilization'' = Some (Num t) \<and>
      th ''required_domains'' = Some (Names ds))"

text \<open>
  Two concrete objects used to instantiate the theorems: the documented example
  \<^verbatim>\<open>update(0.05, 0.9, 0.9, {time: 0.8, biology: 0.75, mind: 0.71, learning: 0.99})\<close>
  on a fresh object, and the same update without the entry for \<^verbatim>\<open>mind\<close>.
\<close>

definition example_state :: ConsciousnessThresholds where
  "example_state =
     update_metrics init 0.05 0.9 0.9
       [(''time'', 0.8), (''biology'', 0.75), (''mind'', 0.71), (''learning'', 0.99)]"

definition mind_missing :: ConsciousnessThresholds where
  "mind_missing =
     update_metrics init 0.05 0.9 0.9
       [(''time'', 0.8), (''biology'', 0.75), (''learning'', 0.99)]"


section \<open>Facts about the loops and the checks\<close>

subsection \<open>The loop of update_metrics\<close>

lemma store_domains_other:
  "k \<notin> fst ` set items \<Longrightarrow> store_domains m items k = m k"
proof (induction items arbitrary: m)
  case Nil
  show ?case by simp
next
  case (Cons it items)
  obtain d p where it: "it = (d, p)" by (cases it)
  from Cons.prems it have "k \<noteq> d" "k \<notin> fst ` set items" by auto
  then show ?case by (simp add: it Cons.IH)
qed

lemma store_domains_member:
  "distinct (map fst items) \<Longrightarrow> (k, v) \<in> set items \<Longrightarrow> store_domains m items k = Some v"
proof (induction items arbitrary: m)
  case Nil
  then show ?case by simp
next
  case (Cons it items)
  obtain d p where it: "it = (d, p)" by (cases it)
  show ?case
  proof (cases "(k, v) = (d, p)")
    case True
    with Cons.prems it have "k \<notin> fst ` set items" by auto
    then have "store_domains (m(d \<mapsto> p)) items k = (m(d \<mapsto> p)) k"
      by (rule store_domains_other)
    with True it show ?thesis by simp
  next
    case False
    with Cons.prems it have "distinct (map fst items)" "(k, v) \<in> set items" by auto
    then have "store_domains (m(d \<mapsto> p)) items k = Some v" by (rule Cons.IH)
    then show ?thesis by (simp add: it)
  qed
qed

lemma dom_store_domains:
  "dom (store_domains m items) = dom m \<union> fst ` set items"
proof (induction items arbitrary: m)
  case Nil
  show ?case by simp
next
  case (Cons it items)
  obtain d p where it: "it = (d, p)" by (cases it)
  have "dom (store_domains (m(d \<mapsto> p)) items) = dom (m(d \<mapsto> p)) \<union> fst ` set items"
    by (rule Cons.IH)
  then show ?case by (simp add: it)
qed

subsection \<open>The loop over the required domains\<close>

text \<open>
  The minimum is looked up in the first iteration, so the loop either raises there or
  compares every domain it reaches with the same number: on a non-empty list its result
  is decided by the set of the required domains.
\<close>

lemma gt_Inr: "gt x v = Inr r \<longleftrightarrow> (\<exists>y. v = Num y \<and> r = (y < x))"
  by (cases v) auto

lemma lt_Inr: "lt x v = Inr r \<longleftrightarrow> (\<exists>y. v = Num y \<and> r = (x < y))"
  by (cases v) auto

lemma iter_Inr: "iter v = Inr ds \<longleftrightarrow> v = Names ds"
  by (cases v) auto

lemma check_domains_Num:
  "th ''min_domain_stabilization'' = Some (Num t) \<Longrightarrow>
   check_domains m th ds = Inr (\<forall>d \<in> set ds. t \<le> get_default m d)"
  by (induction ds) (auto simp: getitem_def)

lemma check_domains_missing:
  "th ''min_domain_stabilization'' = None \<Longrightarrow> ds \<noteq> [] \<Longrightarrow>
   check_domains m th ds = Inl (KeyError ''min_domain_stabilization'')"
  by (cases ds) (auto simp: getitem_def)

lemma check_domains_Names:
  "th ''min_domain_stabilization'' = Some (Names ns) \<Longrightarrow> ds \<noteq> [] \<Longrightarrow>
   check_domains m th ds = Inl TypeError"
  by (cases ds) (auto simp: getitem_def)

lemma check_domains_set:
  "set ds = set ds' \<Longrightarrow> check_domains m th ds = check_domains m th ds'"
proof (cases "th ''min_domain_stabilization''")
  case None
  assume eq: "set ds = set ds'"
  show ?thesis
  proof (cases "ds = []")
    case True with eq show ?thesis by simp
  next
    case False
    with eq have "ds' \<noteq> []" by auto
    with False None show ?thesis by (simp add: check_domains_missing)
  qed
next
  case (Some v)
  assume eq: "set ds = set ds'"
  show ?thesis
  proof (cases v)
    case (Num t)
    with Some eq show ?thesis by (simp add: check_domains_Num)
  next
    case (Names ns)
    show ?thesis
    proof (cases "ds = []")
      case True with eq show ?thesis by simp
    next
      case False
      with eq have "ds' \<noteq> []" by auto
      with False Some Names show ?thesis by (simp add: check_domains_Names)
    qed
  qed
qed

lemma check_domains_cong_th:
  "th ''min_domain_stabilization'' = th' ''min_domain_stabilization'' \<Longrightarrow>
   check_domains m th ds = check_domains m th' ds"
  by (induction ds) (simp_all add: getitem_def split: sum.splits)

lemma check_domains_TrueD:
  assumes "check_domains m th ds = Inr True" and "ds \<noteq> []"
  shows "\<exists>t. th ''min_domain_stabilization'' = Some (Num t)"
proof (cases "th ''min_domain_stabilization''")
  case None
  with assms show ?thesis by (simp add: check_domains_missing)
next
  case (Some v)
  with assms show ?thesis by (cases v) (simp_all add: check_domains_Names)
qed

lemma get_default_absent:
  "m d = None \<Longrightarrow> get_default (m(d \<mapsto> 0)) = get_default m"
  by (rule ext) (simp add: get_default_def)

lemma check_domains_get_default:
  "get_default m = get_default m' \<Longrightarrow> check_domains m th ds = check_domains m' th ds"
  by (induction ds) (simp_all split: sum.splits)

lemma check_domains_error:
  "check_domains m th ds = Inl e \<longleftrightarrow> check_domains m' th ds = Inl e"
proof (cases "ds = []")
  case True
  then show ?thesis by simp
next
  case False
  show ?thesis
  proof (cases "th ''min_domain_stabilization''")
    case None
    with False show ?thesis by (simp add: check_domains_missing)
  next
    case (Some v)
    with False show ?thesis
      by (cases v) (simp_all add: check_domains_Num check_domains_Names)
  qed
qed

subsection \<open>The checks in sequence\<close>

lemma checks_complete:
  "th ''delta_c'' = Some (Num a) \<Longrightarrow> th ''recursive_modeling'' = Some (Num b) \<Longrightarrow>
   th ''memory_integrity'' = Some (Num c) \<Longrightarrow> th ''required_domains'' = Some (Names ds) \<Longrightarrow>
   th ''min_domain_stabilization'' = Some (Num t) \<Longrightarrow>
   checks s th = Inr (global_delta_c s \<le> a \<and> b \<le> recursive_modeling_score s \<and>
                      c \<le> memory_integrity_score s \<and> (\<forall>d \<in> set ds. t \<le> get_default (domain_stabilization s) d))"
  by (auto simp: checks_def getitem_def check_domains_Num)

lemma checks_TrueD:
  assumes "checks s th = Inr True"
  shows "\<exists>a b c ds. th ''delta_c'' = Some (Num a) \<and> global_delta_c s \<le> a \<and>
           th ''recursive_modeling'' = Some (Num b) \<and> b \<le> recursive_modeling_score s \<and>
           th ''memory_integrity'' = Some (Num c) \<and> c \<le> memory_integrity_score s \<and>
           th ''required_domains'' = Some (Names ds) \<and>
           check_domains (domain_stabilization s) th ds = Inr True"
  using assms
  by (auto simp: checks_def getitem_def gt_Inr lt_Inr iter_Inr
      split: option.splits sum.splits if_splits)

lemma checks_delta_c_above:
  "th ''delta_c'' = Some (Num a) \<Longrightarrow> a < global_delta_c s \<Longrightarrow> checks s th = Inr False"
  by (simp add: checks_def getitem_def)

lemma checks_recursive_below:
  "th ''delta_c'' = Some (Num a) \<Longrightarrow> global_delta_c s \<le> a \<Longrightarrow>
   th ''recursive_modeling'' = Some (Num b) \<Longrightarrow> recursive_modeling_score s < b \<Longrightarrow>
   checks s th = Inr False"
  by (simp add: checks_def getitem_def)

lemma checks_memory_below:
  "th ''delta_c'' = Some (Num a) \<Longrightarrow> global_delta_c s \<le> a \<Longrightarrow>
   th ''recursive_modeling'' = Some (Num b) \<Longrightarrow> b \<le> recursive_modeling_score s \<Longrightarrow>
   th ''memory_integrity'' = Some (Num c) \<Longrightarrow> memory_integrity_score s < c \<Longrightarrow>
   checks s th = Inr False"
  by (simp add: checks_def getitem_def)

lemma checks_scalars_pass:
  "th ''delta_c'' = Some (Num a) \<Longrightarrow> global_delta_c s \<le> a \<Longrightarrow>
   th ''recursive_modeling'' = Some (Num b) \<Longrightarrow> b \<le> recursive_modeling_score s \<Longrightarrow>
   th ''memory_integrity'' = Some (Num c) \<Longrightarrow> c \<le> memory_integrity_score s \<Longrightarrow>
   checks s th =
     (case getitem th ''required_domains'' of
        Inl e \<Rightarrow> Inl e
      | Inr v \<Rightarrow> (case iter v of
          Inl e \<Rightarrow> Inl e
        | Inr ds \<Rightarrow> check_domains (domain_stabilization s) th ds))"
  by (simp add: checks_def getitem_def)

lemma checks_error:
  "checks s th = Inl e \<longleftrightarrow> checks (s\<lparr>domain_stabilization := m'\<rparr>) th = Inl e"
  using check_domains_error [of "domain_stabilization s" th _ e m']
  by (simp add: checks_def split: sum.splits)

lemma checks_get_default:
  "get_default (domain_stabilization s) = get_default m' \<Longrightarrow>
   checks (s\<lparr>domain_stabilization := m'\<rparr>) th = checks s th"
  using check_domains_get_default [of "domain_stabilization s" m' th]
  by (simp add: checks_def split: sum.splits)

subsection \<open>The default thresholds and the example objects\<close>

text \<open>The four constants are the doubles nearest to the decimals of the source.\<close>

lemma literals_rounded:
  "double_0_1 = real 7205759403792794 / 2 ^ 56 \<and> nearest_double 0.1 7205759403792794 56"
  "double_0_8 = real 7205759403792794 / 2 ^ 53 \<and> nearest_double 0.8 7205759403792794 53"
  "double_0_85 = real 7656119366529843 / 2 ^ 53 \<and> nearest_double 0.85 7656119366529843 53"
  "double_0_7 = real 6305039478318694 / 2 ^ 53 \<and> nearest_double 0.7 6305039478318694 53"
  by (simp_all add: nearest_double_def double_0_1_def double_0_8_def double_0_85_def
      double_0_7_def)

lemma double_bounds:
  "0.1 \<le> double_0_1" "double_0_1 < 1" "0.8 < double_0_8"
  "double_0_85 \<le> 0.85" "double_0_7 \<le> 0.7" "0 < double_0_7"
  by (simp_all add: double_0_1_def double_0_8_def double_0_85_def double_0_7_def)

lemma default_lookups:
  "default_thresholds ''delta_c'' = Some (Num double_0_1)"
  "default_thresholds ''recursive_modeling'' = Some (Num double_0_8)"
  "default_thresholds ''memory_integrity'' = Some (Num double_0_85)"
  "default_thresholds ''min_domain_stabilization'' = Some (Num double_0_7)"
  "default_thresholds ''required_domains'' = Some (Names [''time'', ''biology'', ''mind'', ''learning''])"
  by (simp_all add: default_thresholds_def)

lemma resolve_None: "resolve None = default_thresholds"
  by (simp add: resolve_def)

lemma is_conscious_default:
  "is_conscious s None =
     Inr (global_delta_c s \<le> double_0_1 \<and> double_0_8 \<le> recursive_modeling_score s \<and>
          double_0_85 \<le> memory_integrity_score s \<and>
          (\<forall>d \<in> set [''time'', ''biology'', ''mind'', ''learning''].
              double_0_7 \<le> get_default (domain_stabilization s) d))"
  unfolding is_conscious_def resolve_def option.case
  by (rule checks_complete) (rule default_lookups)+

lemma default_has_thresholds:
  "has_thresholds (resolve None) double_0_1 double_0_8 double_0_85 double_0_7
     [''time'', ''biology'', ''mind'', ''learning'']"
  by (simp add: has_thresholds_def resolve_None default_lookups)

lemma example_state_fields:
  "global_delta_c example_state = 0.05"
  "recursive_modeling_score example_state = 0.9"
  "memory_integrity_score example_state = 0.9"
  "domain_stabilization example_state ''time'' = Some 0.8"
  "domain_stabilization example_state ''biology'' = Some 0.75"
  "domain_stabilization example_state ''mind'' = Some 0.71"
  "domain_stabilization example_state ''learning'' = Some 0.99"
  by (simp_all add: example_state_def update_metrics_def init_def)

lemma example_state_passes:
  "global_delta_c example_state \<le> double_0_1"
  "double_0_8 \<le> recursive_modeling_score example_state"
  "double_0_85 \<le> memory_integrity_score example_state"
  "\<forall>d \<in> set [''time'', ''biology'', ''mind'', ''learning''].
     double_0_7 \<le> get_default (domain_stabilization example_state) d"
  by (simp_all add: example_state_fields get_default_def
      double_0_1_def double_0_8_def double_0_85_def double_0_7_def)

lemma example_state_conscious: "is_conscious example_state None = Inr True"
  using example_state_passes by (simp add: is_conscious_default)

lemma mind_missing_fields:
  "domain_stabilization mind_missing ''mind'' = None"
  by (simp_all add: mind_missing_def update_metrics_def init_def)


subsection \<open>The body of is_conscious leaves the object as it was\<close>

text \<open>
  Every step of the body gives back the object it was given, in the loop by induction
  on the required domains, and the outcome is the value of \<open>is_conscious\<close>.
\<close>

lemma check_domains_m_eq:
  "check_domains_m th ds s = (check_domains (domain_stabilization s) th ds, s)"
  by (induction ds)
     (simp_all add: and_then_def read_def outcome_def split: sum.splits)

lemma is_conscious_m_eq: "is_conscious_m p s = (is_conscious s p, s)"
  by (simp add: is_conscious_m_def is_conscious_def checks_def check_domains_m_eq
      and_then_def read_def outcome_def split: sum.splits)

subsection \<open>Sequences of calls\<close>

lemma run_append: "run s (cs @ cs') = run (run s cs) cs'"
  by (induction cs arbitrary: s) simp_all

lemma dom_exec:
  "dom (domain_stabilization (exec s c)) = dom (domain_stabilization s) \<union> stored_keys c"
  by (cases c) (simp_all add: update_metrics_def dom_store_domains is_conscious_m_eq)

lemma dom_run:
  "dom (domain_stabilization (run s cs)) =
     dom (domain_stabilization s) \<union> \<Union> (stored_keys ` set cs)"
  by (induction cs arbitrary: s) (auto simp: dom_exec)

section \<open>Properties\<close>




text \<open>
  C2. On the freshly constructed object (incoherence 1.0, both scores 0.0, no domain
  stored), with no update in between, \<^verbatim>\<open>is_conscious()\<close> with the default thresholds
  returns \<^verbatim>\<open>False\<close>.
\<close>

theorem C2_fresh_object_not_conscious: "is_conscious init None = Inr False"
  by (simp add: is_conscious_def resolve_def checks_def default_thresholds_def
      getitem_def init_def double_0_1_def)

text \<open>
  C3. Each of the four kinds of condition is necessary on its own. Let
  \<^verbatim>\<open>is_conscious\<close> return \<^verbatim>\<open>True\<close> for an object and a thresholds argument (given
  or defaulted). Then the thresholds hold the numbers and the list the checks read, and
  changing one stored value so that it violates its bound, everything else as it was,
  makes the call return \<^verbatim>\<open>False\<close>: an incoherence above the maximum, a
  self-modeling score below its minimum, a memory-integrity score below its minimum, or
  the stabilization of one required domain below the domain minimum. The bounds are the
  numbers the thresholds hold: for the defaulted thresholds the doubles of the source's
  literals, so that an incoherence equal to the double \<^verbatim>\<open>0.1\<close> is not above the
  maximum, and the next double is.
\<close>

theorem C3_each_condition_necessary:
  assumes "is_conscious s p = Inr True"
  shows "(\<exists>a b c ds. resolve p ''delta_c'' = Some (Num a) \<and>
            resolve p ''recursive_modeling'' = Some (Num b) \<and>
            resolve p ''memory_integrity'' = Some (Num c) \<and>
            resolve p ''required_domains'' = Some (Names ds) \<and>
            (ds = [] \<or> (\<exists>t. resolve p ''min_domain_stabilization'' = Some (Num t)))) \<and>
         (\<forall>a x. resolve p ''delta_c'' = Some (Num a) \<and> a < x \<longrightarrow>
            is_conscious (s\<lparr>global_delta_c := x\<rparr>) p = Inr False) \<and>
         (\<forall>b x. resolve p ''recursive_modeling'' = Some (Num b) \<and> x < b \<longrightarrow>
            is_conscious (s\<lparr>recursive_modeling_score := x\<rparr>) p = Inr False) \<and>
         (\<forall>c x. resolve p ''memory_integrity'' = Some (Num c) \<and> x < c \<longrightarrow>
            is_conscious (s\<lparr>memory_integrity_score := x\<rparr>) p = Inr False) \<and>
         (\<forall>t ds d x. resolve p ''min_domain_stabilization'' = Some (Num t) \<and>
            resolve p ''required_domains'' = Some (Names ds) \<and> d \<in> set ds \<and> x < t \<longrightarrow>
            is_conscious (s\<lparr>domain_stabilization := (domain_stabilization s)(d \<mapsto> x)\<rparr>) p
              = Inr False)"
proof -
  define th where "th = resolve p"
  from assms have ok: "checks s th = Inr True"
    by (simp add: is_conscious_def th_def)
  from checks_TrueD [OF ok] obtain a b c ds where
    a: "th ''delta_c'' = Some (Num a)" "global_delta_c s \<le> a" and
    b: "th ''recursive_modeling'' = Some (Num b)" "b \<le> recursive_modeling_score s" and
    c: "th ''memory_integrity'' = Some (Num c)" "c \<le> memory_integrity_score s" and
    ds: "th ''required_domains'' = Some (Names ds)" and
    loop: "check_domains (domain_stabilization s) th ds = Inr True"
    by blast
  have present: "\<exists>a b c ds. th ''delta_c'' = Some (Num a) \<and>
            th ''recursive_modeling'' = Some (Num b) \<and>
            th ''memory_integrity'' = Some (Num c) \<and>
            th ''required_domains'' = Some (Names ds) \<and>
            (ds = [] \<or> (\<exists>t. th ''min_domain_stabilization'' = Some (Num t)))"
    using a(1) b(1) c(1) ds check_domains_TrueD [OF loop] by blast
  have c1: "checks (s\<lparr>global_delta_c := x\<rparr>) th = Inr False"
    if "th ''delta_c'' = Some (Num a')" "a' < x" for a' x
    using that by (intro checks_delta_c_above) simp_all
  have c2: "checks (s\<lparr>recursive_modeling_score := x\<rparr>) th = Inr False"
    if "th ''recursive_modeling'' = Some (Num b')" "x < b'" for b' x
    using that a by (intro checks_recursive_below) simp_all
  have c3: "checks (s\<lparr>memory_integrity_score := x\<rparr>) th = Inr False"
    if "th ''memory_integrity'' = Some (Num c')" "x < c'" for c' x
    using that a b by (intro checks_memory_below) simp_all
  have c4: "checks (s\<lparr>domain_stabilization := (domain_stabilization s)(d \<mapsto> x)\<rparr>) th = Inr False"
    if "th ''min_domain_stabilization'' = Some (Num t)"
       "th ''required_domains'' = Some (Names ds')" "d \<in> set ds'" "x < t" for t ds' d x
  proof -
    let ?s' = "s\<lparr>domain_stabilization := (domain_stabilization s)(d \<mapsto> x)\<rparr>"
    have "checks ?s' th = check_domains (domain_stabilization ?s') th ds'"
      using a b c that(2)
      by (subst checks_scalars_pass [where a = a and b = b and c = c])
         (simp_all add: getitem_def)
    also have "\<dots> = Inr (\<forall>d' \<in> set ds'. t \<le> get_default (domain_stabilization ?s') d')"
      using that(1) by (rule check_domains_Num)
    also have "\<dots> = Inr False"
      using that(3,4) by (auto simp: get_default_def intro!: bexI [of _ d])
    finally show ?thesis .
  qed
  show ?thesis
    using present c1 c2 c3 c4 unfolding is_conscious_def th_def [symmetric] by blast
qed

theorem C3_witness:
  "is_conscious example_state None = Inr True \<and>
   is_conscious (example_state\<lparr>global_delta_c := 0.2\<rparr>) None = Inr False \<and>
   is_conscious (example_state\<lparr>global_delta_c := 7205759403792795 / 2 ^ 56\<rparr>) None
     = Inr False \<and>
   is_conscious (example_state\<lparr>recursive_modeling_score := 0.79\<rparr>) None = Inr False \<and>
   is_conscious (example_state\<lparr>memory_integrity_score := 0.8\<rparr>) None = Inr False \<and>
   is_conscious (example_state\<lparr>domain_stabilization :=
       (domain_stabilization example_state)(''mind'' \<mapsto> 0.69)\<rparr>) None = Inr False"
proof -
  have ok: "is_conscious example_state None = Inr True"
    by (rule example_state_conscious)
  note nec = C3_each_condition_necessary [OF ok, unfolded resolve_None]
  have above: "double_0_1 < 0.2" "double_0_1 < 7205759403792795 / 2 ^ 56"
    by (simp_all add: double_0_1_def)
  have below: "0.79 < double_0_8" "0.8 < double_0_85" "0.69 < double_0_7"
    by (simp_all add: double_0_8_def double_0_85_def double_0_7_def)
  have required: "''mind'' \<in> set [''time'', ''biology'', ''mind'', ''learning'']"
    by simp
  from nec default_lookups(1) above(1)
  have 1: "is_conscious (example_state\<lparr>global_delta_c := 0.2\<rparr>) None = Inr False"
    by blast
  from nec default_lookups(1) above(2)
  have 2: "is_conscious (example_state\<lparr>global_delta_c := 7205759403792795 / 2 ^ 56\<rparr>) None
      = Inr False"
    by blast
  from nec default_lookups(2) below(1)
  have 3: "is_conscious (example_state\<lparr>recursive_modeling_score := 0.79\<rparr>) None = Inr False"
    by blast
  from nec default_lookups(3) below(2)
  have 4: "is_conscious (example_state\<lparr>memory_integrity_score := 0.8\<rparr>) None = Inr False"
    by blast
  from nec default_lookups(4) default_lookups(5) required below(3)
  have 5: "is_conscious (example_state\<lparr>domain_stabilization :=
       (domain_stabilization example_state)(''mind'' \<mapsto> 0.69)\<rparr>) None = Inr False"
    by blast
  from ok 1 2 3 4 5 show ?thesis by blast
qed

text \<open>
  C4. A domain that is not a key of the stored dictionary is treated exactly as if it
  were stored with stabilization 0: for every object and every thresholds argument the
  result is the same as with the entry set to 0. No error comes from the stored
  dictionary: whether the call raises, and what, does not depend on its contents, and
  with thresholds that hold all five keys the call returns a boolean. With such
  thresholds and a positive domain minimum (the default 0.7 is one), a required domain
  that is absent makes the call return \<^verbatim>\<open>False\<close>.
\<close>

theorem C4_absent_domain_counts_as_zero:
  "(domain_stabilization s d = None \<longrightarrow>
      is_conscious s p =
      is_conscious (s\<lparr>domain_stabilization := (domain_stabilization s)(d \<mapsto> 0)\<rparr>) p) \<and>
   (is_conscious s p = Inl e \<longleftrightarrow> is_conscious (s\<lparr>domain_stabilization := m'\<rparr>) p = Inl e) \<and>
   (has_thresholds (resolve p) a b c t ds \<longrightarrow>
      (\<exists>r. is_conscious s p = Inr r) \<and>
      (d \<in> set ds \<and> domain_stabilization s d = None \<and> 0 < t \<longrightarrow>
         is_conscious s p = Inr False))"
proof (intro conjI impI)
  assume "domain_stabilization s d = None"
  then have "get_default (domain_stabilization s) =
             get_default ((domain_stabilization s)(d \<mapsto> 0))"
    by (simp add: get_default_absent)
  then show "is_conscious s p =
      is_conscious (s\<lparr>domain_stabilization := (domain_stabilization s)(d \<mapsto> 0)\<rparr>) p"
    by (simp add: is_conscious_def checks_get_default)
next
  show "is_conscious s p = Inl e \<longleftrightarrow> is_conscious (s\<lparr>domain_stabilization := m'\<rparr>) p = Inl e"
    unfolding is_conscious_def by (rule checks_error)
next
  assume "has_thresholds (resolve p) a b c t ds"
  then show "\<exists>r. is_conscious s p = Inr r"
    by (simp add: is_conscious_def has_thresholds_def checks_complete)
next
  assume h: "has_thresholds (resolve p) a b c t ds"
    and d: "d \<in> set ds \<and> domain_stabilization s d = None \<and> 0 < t"
  from d have "d \<in> set ds" "\<not> t \<le> get_default (domain_stabilization s) d"
    by (simp_all add: get_default_def)
  then have "\<not> (\<forall>d \<in> set ds. t \<le> get_default (domain_stabilization s) d)"
    by blast
  with h show "is_conscious s p = Inr False"
    by (simp add: is_conscious_def has_thresholds_def checks_complete)
qed

theorem C4_witness:
  "domain_stabilization mind_missing ''mind'' = None \<and>
   is_conscious mind_missing None =
     is_conscious (mind_missing\<lparr>domain_stabilization :=
        (domain_stabilization mind_missing)(''mind'' \<mapsto> 0)\<rparr>) None \<and>
   is_conscious mind_missing None = Inr False"
proof -
  have absent: "domain_stabilization mind_missing ''mind'' = None"
    by (rule mind_missing_fields)
  have required: "''mind'' \<in> set [''time'', ''biology'', ''mind'', ''learning'']"
    by simp
  have positive: "0 < double_0_7"
    by (rule double_bounds)
  note c4 = C4_absent_domain_counts_as_zero
    [of mind_missing "''mind''" None "KeyError ''mind''" Map.empty
        double_0_1 double_0_8 double_0_85 double_0_7
        "[''time'', ''biology'', ''mind'', ''learning'']"]
  from c4 absent have 1: "is_conscious mind_missing None =
     is_conscious (mind_missing\<lparr>domain_stabilization :=
        (domain_stabilization mind_missing)(''mind'' \<mapsto> 0)\<rparr>) None"
    by blast
  from c4 default_has_thresholds absent required positive
  have 2: "is_conscious mind_missing None = Inr False"
    by blast
  from absent 1 2 show ?thesis by blast
qed

text \<open>
  C5. \<^verbatim>\<open>update_metrics\<close> replaces the three scalar fields by the supplied values,
  sets every domain named in \<^verbatim>\<open>domain_updates\<close> to the value given for it, and leaves
  every other domain entry (present or absent) as it was. The keys of a dictionary are
  distinct, which is the hypothesis on its sequence of items.
\<close>

theorem C5_update_metrics_effect:
  assumes "distinct (map fst domain_updates)"
    and "s' = update_metrics s delta_c recursive_score memory_score domain_updates"
  shows "global_delta_c s' = delta_c \<and>
         recursive_modeling_score s' = recursive_score \<and>
         memory_integrity_score s' = memory_score \<and>
         (\<forall>k v. (k, v) \<in> set domain_updates \<longrightarrow> domain_stabilization s' k = Some v) \<and>
         (\<forall>k. k \<notin> fst ` set domain_updates \<longrightarrow>
                domain_stabilization s' k = domain_stabilization s k)"
  using assms
  by (simp add: update_metrics_def store_domains_member store_domains_other)

theorem C5_witness:
  "domain_stabilization example_state ''time'' = Some 0.8 \<and>
   global_delta_c (update_metrics example_state 0.5 0.4 0.3 [(''mind'', 0.2), (''art'', 0.6)]) = 0.5 \<and>
   recursive_modeling_score (update_metrics example_state 0.5 0.4 0.3 [(''mind'', 0.2), (''art'', 0.6)]) = 0.4 \<and>
   memory_integrity_score (update_metrics example_state 0.5 0.4 0.3 [(''mind'', 0.2), (''art'', 0.6)]) = 0.3 \<and>
   domain_stabilization (update_metrics example_state 0.5 0.4 0.3 [(''mind'', 0.2), (''art'', 0.6)]) ''mind'' = Some 0.2 \<and>
   domain_stabilization (update_metrics example_state 0.5 0.4 0.3 [(''mind'', 0.2), (''art'', 0.6)]) ''art'' = Some 0.6 \<and>
   domain_stabilization (update_metrics example_state 0.5 0.4 0.3 [(''mind'', 0.2), (''art'', 0.6)]) ''time'' = Some 0.8"
proof -
  have d: "distinct (map fst [(''mind'', 0.2::real), (''art'', 0.6)])" by simp
  note eff = C5_update_metrics_effect [OF d refl, of example_state "0.5" "0.4" "0.3"]
  have t: "domain_stabilization example_state ''time'' = Some 0.8"
    by (rule example_state_fields)
  from eff have "domain_stabilization (update_metrics example_state 0.5 0.4 0.3 [(''mind'', 0.2), (''art'', 0.6)]) ''time''
     = domain_stabilization example_state ''time''"
    by simp
  with eff t show ?thesis by simp
qed

text \<open>
  C6. With custom thresholds whose list of required domains is empty, the call returns
  \<^verbatim>\<open>True\<close> exactly when the three scalar conditions hold (incoherence not above the
  maximum, both scores not below their minimums). The stored domains and the domain
  minimum have no effect: replacing the stored dictionary by any other and the entry
  \<^verbatim>\<open>"min_domain_stabilization"\<close> by anything (or removing it) gives the same result.
\<close>

theorem C6_no_required_domains:
  assumes "th ''delta_c'' = Some (Num a)"
    and "th ''recursive_modeling'' = Some (Num b)"
    and "th ''memory_integrity'' = Some (Num c)"
    and "th ''required_domains'' = Some (Names [])"
  shows "is_conscious s (Some th) =
           Inr (global_delta_c s \<le> a \<and> b \<le> recursive_modeling_score s \<and>
                c \<le> memory_integrity_score s) \<and>
         is_conscious (s\<lparr>domain_stabilization := m'\<rparr>)
             (Some (th(''min_domain_stabilization'' := v))) =
           is_conscious s (Some th)"
  using assms
  by (auto simp: is_conscious_def resolve_def checks_def getitem_def)

theorem C6_witness:
  "is_conscious init
     (Some [''delta_c'' \<mapsto> Num 1, ''recursive_modeling'' \<mapsto> Num 0,
            ''memory_integrity'' \<mapsto> Num 0, ''required_domains'' \<mapsto> Names []]) = Inr True"
  using C6_no_required_domains
    [of "[''delta_c'' \<mapsto> Num 1, ''recursive_modeling'' \<mapsto> Num 0,
            ''memory_integrity'' \<mapsto> Num 0, ''required_domains'' \<mapsto> Names []]" 1 0 0 init]
  by (simp add: init_def)

text \<open>
  C7. Two thresholds dictionaries that differ only in the order of the list of required
  domains (the same domain names with the same multiplicities, all other entries equal)
  give the same result on every object, errors included.
\<close>

theorem C7_required_domains_order_irrelevant:
  assumes "th ''required_domains'' = Some (Names ds)"
    and "mset ds' = mset ds"
  shows "is_conscious s (Some (th(''required_domains'' \<mapsto> Names ds'))) =
         is_conscious s (Some th)"
proof -
  let ?th' = "th(''required_domains'' \<mapsto> Names ds')"
  from assms(2) have "set ds' = set ds" by (rule mset_eq_setD)
  then have "check_domains (domain_stabilization s) ?th' ds' =
             check_domains (domain_stabilization s) ?th' ds"
    by (rule check_domains_set)
  also have "\<dots> = check_domains (domain_stabilization s) th ds"
    by (rule check_domains_cong_th) simp
  finally show ?thesis
    using assms(1)
    by (simp add: is_conscious_def resolve_def checks_def getitem_def
        split: option.splits sum.splits)
qed

theorem C7_witness:
  "is_conscious example_state
     (Some (default_thresholds(''required_domains'' \<mapsto>
        Names [''learning'', ''mind'', ''biology'', ''time'']))) =
   is_conscious example_state (Some default_thresholds)"
proof (rule C7_required_domains_order_irrelevant)
  show "default_thresholds ''required_domains'' =
          Some (Names [''time'', ''biology'', ''mind'', ''learning''])"
    by (rule default_lookups)
  show "mset [''learning'', ''mind'', ''biology'', ''time''] =
        mset [''time'', ''biology'', ''mind'', ''learning'']"
    by (simp add: ac_simps)
qed

text \<open>
  C8. \<^verbatim>\<open>is_conscious\<close> has no side effect: for every object and every thresholds
  argument (given or omitted), whether the call returns or raises, the object the body
  leaves behind has the three scalar fields and the whole domain dictionary it had
  before the call, and the outcome of the body is the value of \<open>is_conscious\<close>. Hence
  a call of \<^verbatim>\<open>is_conscious\<close> anywhere in a sequence of calls can be dropped without
  changing the object the sequence ends in.
\<close>

theorem C8_is_conscious_no_side_effect:
  "global_delta_c (snd (is_conscious_m p s)) = global_delta_c s \<and>
   recursive_modeling_score (snd (is_conscious_m p s)) = recursive_modeling_score s \<and>
   memory_integrity_score (snd (is_conscious_m p s)) = memory_integrity_score s \<and>
   domain_stabilization (snd (is_conscious_m p s)) = domain_stabilization s \<and>
   snd (is_conscious_m p s) = s \<and>
   fst (is_conscious_m p s) = is_conscious s p \<and>
   exec s (Is_conscious p) = s \<and>
   run s (cs @ Is_conscious p # cs') = run s (cs @ cs')"
proof -
  have body: "is_conscious_m p s = (is_conscious s p, s)"
    by (rule is_conscious_m_eq)
  then have after: "snd (is_conscious_m p s) = s" and result: "fst (is_conscious_m p s) = is_conscious s p"
    by simp_all
  from after have call: "exec s (Is_conscious p) = s"
    by simp
  have "run s (cs @ Is_conscious p # cs') = run (exec (run s cs) (Is_conscious p)) cs'"
    by (simp add: run_append)
  also have "exec (run s cs) (Is_conscious p) = run s cs"
    by (simp add: is_conscious_m_eq)
  finally have "run s (cs @ Is_conscious p # cs') = run s (cs @ cs')"
    by (simp add: run_append)
  with after result call show ?thesis
    by simp
qed

text \<open>
  C9. Custom thresholds that lack one of the five keys are not completed from the
  defaults: the lookup of the missing key raises \<^verbatim>\<open>KeyError\<close> as soon as the call
  reaches it. \<^verbatim>\<open>"delta_c"\<close> is read first, so its absence always raises; each later
  key is reached when the checks before it pass, and \<^verbatim>\<open>"min_domain_stabilization"\<close>
  is reached when, in addition, there is a required domain. Only the omitted argument is
  replaced by the default dictionary.
\<close>

theorem C9_incomplete_thresholds_raise:
  "(th ''delta_c'' = None \<longrightarrow> is_conscious s (Some th) = Inl (KeyError ''delta_c'')) \<and>
   (th ''delta_c'' = Some (Num a) \<and> global_delta_c s \<le> a \<longrightarrow>
     (th ''recursive_modeling'' = None \<longrightarrow>
        is_conscious s (Some th) = Inl (KeyError ''recursive_modeling'')) \<and>
     (th ''recursive_modeling'' = Some (Num b) \<and> b \<le> recursive_modeling_score s \<longrightarrow>
       (th ''memory_integrity'' = None \<longrightarrow>
          is_conscious s (Some th) = Inl (KeyError ''memory_integrity'')) \<and>
       (th ''memory_integrity'' = Some (Num c) \<and> c \<le> memory_integrity_score s \<longrightarrow>
         (th ''required_domains'' = None \<longrightarrow>
            is_conscious s (Some th) = Inl (KeyError ''required_domains'')) \<and>
         (th ''required_domains'' = Some (Names (d # ds)) \<and>
          th ''min_domain_stabilization'' = None \<longrightarrow>
            is_conscious s (Some th) = Inl (KeyError ''min_domain_stabilization''))))) \<and>
   is_conscious s None = is_conscious s (Some default_thresholds)"
  by (simp add: is_conscious_def resolve_def checks_def getitem_def)

theorem C9_witness:
  "is_conscious example_state None = Inr True \<and>
   is_conscious example_state (Some (default_thresholds(''delta_c'' := None))) =
     Inl (KeyError ''delta_c'') \<and>
   is_conscious example_state (Some (default_thresholds(''recursive_modeling'' := None))) =
     Inl (KeyError ''recursive_modeling'') \<and>
   is_conscious example_state (Some (default_thresholds(''memory_integrity'' := None))) =
     Inl (KeyError ''memory_integrity'') \<and>
   is_conscious example_state (Some (default_thresholds(''required_domains'' := None))) =
     Inl (KeyError ''required_domains'') \<and>
   is_conscious example_state (Some (default_thresholds(''min_domain_stabilization'' := None))) =
     Inl (KeyError ''min_domain_stabilization'')"
proof -
  have ok: "is_conscious example_state None = Inr True"
    by (rule example_state_conscious)
  have 1: "is_conscious example_state (Some (default_thresholds(''delta_c'' := None))) =
     Inl (KeyError ''delta_c'')"
    using C9_incomplete_thresholds_raise
      [of "default_thresholds(''delta_c'' := None)" example_state]
    by simp
  have 2: "is_conscious example_state (Some (default_thresholds(''recursive_modeling'' := None))) =
     Inl (KeyError ''recursive_modeling'')"
    using C9_incomplete_thresholds_raise
      [of "default_thresholds(''recursive_modeling'' := None)" example_state double_0_1]
    by (simp add: default_lookups example_state_passes)
  have 3: "is_conscious example_state (Some (default_thresholds(''memory_integrity'' := None))) =
     Inl (KeyError ''memory_integrity'')"
    using C9_incomplete_thresholds_raise
      [of "default_thresholds(''memory_integrity'' := None)" example_state double_0_1 double_0_8]
    by (simp add: default_lookups example_state_passes)
  have 4: "is_conscious example_state (Some (default_thresholds(''required_domains'' := None))) =
     Inl (KeyError ''required_domains'')"
    using C9_incomplete_thresholds_raise
      [of "default_thresholds(''required_domains'' := None)" example_state double_0_1 double_0_8 double_0_85]
    by (simp add: default_lookups example_state_passes)
  have 5: "is_conscious example_state (Some (default_thresholds(''min_domain_stabilization'' := None))) =
     Inl (KeyError ''min_domain_stabilization'')"
    using C9_incomplete_thresholds_raise
      [of "default_thresholds(''min_domain_stabilization'' := None)" example_state double_0_1 double_0_8 double_0_85
          "''time''" "[''biology'', ''mind'', ''learning'']"]
    by (simp add: default_lookups example_state_passes)
  from ok 1 2 3 4 5 show ?thesis by blast
qed

text \<open>
  C10. The key set of the stored domain dictionary never shrinks: no single call and no
  sequence of calls removes a key. The dictionary of the fresh object is empty, and
  after any sequence of \<^verbatim>\<open>update_metrics\<close> and \<^verbatim>\<open>is_conscious\<close> calls on it the key
  set is the union of the keys of all \<^verbatim>\<open>domain_updates\<close> arguments supplied so far.
\<close>

theorem C10_domain_keys_never_removed:
  "dom (domain_stabilization s) \<subseteq> dom (domain_stabilization (exec s c)) \<and>
   dom (domain_stabilization s) \<subseteq> dom (domain_stabilization (run s cs)) \<and>
   dom (domain_stabilization init) = {} \<and>
   dom (domain_stabilization (run init cs)) = \<Union> (stored_keys ` set cs)"
  by (auto simp: dom_exec dom_run init_def)

end
